theory Spec2Isabelle
  imports Complex_Main "HOL-Library.Log_Nat"
begin

section \<open>Python floats\<close>

text \<open>
  The confidence scores of \<^verbatim>\<open>app.py\<close> are Python floats: IEEE-754 binary64 values
  (\<^verbatim>\<open>numpy.float64\<close> from \<^verbatim>\<open>predict_proba\<close>, the literals \<^verbatim>\<open>100.0\<close> and \<^verbatim>\<open>0.0\<close>).
  A finite value is a sign, a mantissa and a binary exponent and denotes
  \<open>\<plusminus> m * 2 ^ e\<close>; every operation computes the exact result and rounds it to
  53 significant bits, ties to even, with exponents from \<open>-1074\<close> and overflow to
  infinity from \<open>2 ^ 1024\<close>.
\<close>

datatype float64 = Finite bool nat int | Infinity bool | NaN




definition round_half_even :: "nat \<Rightarrow> nat \<Rightarrow> nat" where
  "round_half_even M k =
     (let q = M div 2 ^ k; r = M mod 2 ^ k; h = 2 ^ (k - 1)
      in if h < r \<or> (r = h \<and> odd q) then q + 1 else q)"

definition overflow :: "bool \<Rightarrow> nat \<Rightarrow> int \<Rightarrow> float64" where
  "overflow s q g = (if 0 \<le> g \<and> 2 ^ 1024 \<le> q * 2 ^ nat g then Infinity s else Finite s q g)"

text \<open>Rounding the exact magnitude \<open>M * 2 ^ E\<close>: \<open>k\<close> low bits are dropped, as many as
  the precision or the smallest exponent requires.\<close>

definition fround :: "bool \<Rightarrow> nat \<Rightarrow> int \<Rightarrow> float64" where
  "fround s M E =
     (let k = max (bitlen (int M) - 53) (- 1074 - E)
      in if k \<le> 0 then overflow s M E
         else overflow s (round_half_even M (nat k)) (E + k))"

text \<open>\<^verbatim>\<open>float(n)\<close> for a Python int, as the mixed operations \<^verbatim>\<open>x * 100\<close> and
  \<^verbatim>\<open>x > 50\<close> convert their int operand.\<close>

definition float_of_int :: "int \<Rightarrow> float64" where
  "float_of_int n = fround (n < 0) (nat \<bar>n\<bar>) 0"

fun fmul :: "float64 \<Rightarrow> float64 \<Rightarrow> float64" where
  "fmul NaN y = NaN"
| "fmul x NaN = NaN"
| "fmul (Infinity s) (Infinity t) = Infinity (s \<noteq> t)"
| "fmul (Infinity s) (Finite t n f) = (if n = 0 then NaN else Infinity (s \<noteq> t))"
| "fmul (Finite s m e) (Infinity t) = (if m = 0 then NaN else Infinity (s \<noteq> t))"
| "fmul (Finite s m e) (Finite t n f) = fround (s \<noteq> t) (m * n) (e + f)"

text \<open>The signed mantissa of a finite float at the exponent \<open>d\<close>, for \<open>d\<close> not above its
  own exponent.\<close>

definition scaled :: "bool \<Rightarrow> nat \<Rightarrow> int \<Rightarrow> int \<Rightarrow> int" where
  "scaled s m e d = (if s then - 1 else 1) * int m * 2 ^ nat (e - d)"


text \<open>\<^verbatim>\<open>x > y\<close> on floats: exact, and false as soon as one side is NaN.\<close>

fun fgt :: "float64 \<Rightarrow> float64 \<Rightarrow> bool" where
  "fgt NaN y = False"
| "fgt x NaN = False"
| "fgt (Infinity s) (Infinity t) = (\<not> s \<and> t)"
| "fgt (Infinity s) (Finite t n f) = (\<not> s)"
| "fgt (Finite s m e) (Infinity t) = t"
| "fgt (Finite s m e) (Finite t n f) =
     (scaled t n f (min e f) < scaled s m e (min e f))"

section \<open>Requests, responses and the outside world\<close>

record request =
  request_method :: string
  cookies :: "string \<rightharpoonup> string"
  form :: "string \<rightharpoonup> string"

datatype content = Html string | Redirect string | Abort nat

record response =
  content :: content
  set_cookies :: "(string \<times> string) list"

definition make_response :: "content \<Rightarrow> response" where
  "make_response c = \<lparr>content = c, set_cookies = []\<rparr>"


text \<open>The \<^verbatim>\<open>Contact\<close> model: one row of the contact table.\<close>

record contact =
  cid :: nat
  name :: string
  email :: string
  message :: string

text \<open>Keyword arguments handed to \<^verbatim>\<open>render_template\<close>.\<close>

datatype tvalue =
    TStr string
  | TFloat float64
  | TBool bool
  | TEnv "string option"
  | TContacts "contact list"

text \<open>What \<^verbatim>\<open>requests.get(url, timeout=5)\<close> does: it raises
  \<^verbatim>\<open>requests.RequestException\<close> (connection errors, timeouts, malformed URLs) or returns
  a response with a status code.\<close>

datatype get_outcome = Raises_RequestException | Response int

text \<open>A decoded JSON document, with Python's truth value of each.\<close>

datatype json =
    JNull
  | JBool bool
  | JNum real
  | JStr string
  | JArr "json list"
  | JObj "(string \<times> json) list"



text \<open>What \<^verbatim>\<open>requests.post\<close> to the verification endpoint does: it raises, or returns a
  response with its \<^verbatim>\<open>ok\<close> flag and the outcome of \<^verbatim>\<open>response.json()\<close> (\<open>None\<close> when the
  body is not JSON and decoding raises).\<close>

datatype post_outcome = Post_raises | Post_response bool "json option"

text \<open>Everything \<^verbatim>\<open>app.py\<close> reaches outside itself: the network, the classifier loaded from
  \<^verbatim>\<open>models/feature_model.joblib\<close>, the templates and the environment. None of it is in
  the repository's source, so it is a parameter of every handler. The classifier's
  \<^verbatim>\<open>predict_proba([url])[0]\<close> is a row of two probabilities, phishing first.\<close>

record world =
  requests_get :: "string \<Rightarrow> get_outcome"
  requests_post :: "string \<Rightarrow> (string \<times> string option) list \<Rightarrow> post_outcome"
  predict :: "string \<Rightarrow> int"
  predict_proba :: "string \<Rightarrow> float64 \<times> float64"
  render_template :: "string \<Rightarrow> (string \<times> tvalue) list \<Rightarrow> string"
  RECAPTCHA_SITE_KEY :: "string option"
  RECAPTCHA_SECRET_KEY :: "string option"

text \<open>The calls a handler makes, in order.\<close>

datatype event =
    Cache_get string
  | Cache_set string string nat
  | Requests_get string nat
  | Requests_post string "(string \<times> string option) list"
  | Predict string
  | Predict_proba string
  | Render_template string "(string \<times> tvalue) list"
  | Query_all
  | Query_get nat
  | Db_add contact
  | Db_delete contact
  | Db_commit
  | Flash string string

section \<open>The cache and the contact table\<close>

text \<open>Modelled from the spec: the Flask-Caching filesystem store is a library, not code of
  this repository. The spec describes it as a key-value store keyed by the raw URL
  string whose entries live for their TTL from the write and are expired afterwards.
  An entry is the stored value with the time at which it expires.\<close>

type_synonym cache_store = "string \<rightharpoonup> string \<times> nat"

definition cache_get :: "cache_store \<Rightarrow> nat \<Rightarrow> string \<Rightarrow> string option" where
  "cache_get c now k =
     (case c k of None \<Rightarrow> None | Some (v, expires) \<Rightarrow> if now < expires then Some v else None)"

definition cache_set :: "cache_store \<Rightarrow> nat \<Rightarrow> string \<Rightarrow> string \<Rightarrow> nat \<Rightarrow> cache_store" where
  "cache_set c now k v timeout = c(k \<mapsto> (v, now + timeout))"

text \<open>Modelled from the spec: the relational store is SQLite behind the ORM, not code of
  this repository. The table is the list of its rows in insertion order; the integer
  primary key of a new row is one more than the largest key present.\<close>

definition next_id :: "contact list \<Rightarrow> nat" where
  "next_id rows = Suc (foldr max (map cid rows) 0)"

definition query_get :: "contact list \<Rightarrow> nat \<Rightarrow> contact option" where
  "query_get rows i = find (\<lambda>r. cid r = i) rows"

definition db_delete :: "contact list \<Rightarrow> contact \<Rightarrow> contact list" where
  "db_delete rows c = filter (\<lambda>r. cid r \<noteq> cid c) rows"

record app =
  cache :: cache_store
  contacts :: "contact list"

section \<open>The handlers of app.py\<close>


text \<open>Lines 88 to 117 of \<^verbatim>\<open>detect_phishing\<close>: the liveness check inside \<^verbatim>\<open>try\<close>, the
  prediction on status 200, and the two branches that set the result to phishing.
  The result is the label with the two confidence scores, and the calls made.\<close>

definition check_and_predict :: "world \<Rightarrow> string \<Rightarrow> (string \<times> float64 \<times> float64) \<times> event list" where
  "check_and_predict w url =
     (case requests_get w url of
        Response status_code \<Rightarrow>
          if status_code = 200 then
            let feature_pred = predict w url;
                feature_confidence = predict_proba w url;
                confidence_phishing_feature = fmul (fst feature_confidence) (float_of_int 100);
                confidence_legitimate_feature = fmul (snd feature_confidence) (float_of_int 100);
                threshold = 50;
                final_pred =
                  (if fgt confidence_phishing_feature (float_of_int threshold)
                   then - 1 else 1 :: int);
                result = (if final_pred = - 1 then ''Phishing'' else ''Legitimate'')
            in ((result, confidence_phishing_feature, confidence_legitimate_feature),
                [Requests_get url 5, Predict url, Predict_proba url])
          else
            ((''Phishing'', Finite False 100 0, Finite False 0 0), [Requests_get url 5])
      | Raises_RequestException \<Rightarrow>
          ((''Phishing'', Finite False 100 0, Finite False 0 0), [Requests_get url 5]))"

text \<open>The keyword arguments of the report page: \<^verbatim>\<open>url\<close>, \<^verbatim>\<open>result\<close> and the two
  confidence scores.\<close>

definition report_ctx :: "string \<Rightarrow> string \<Rightarrow> float64 \<Rightarrow> float64 \<Rightarrow> (string \<times> tvalue) list" where
  "report_ctx url result confidence_phishing_feature confidence_legitimate_feature =
     [(''url'', TStr url),
      (''result'', TStr result),
      (''confidence_phishing_feature'', TFloat confidence_phishing_feature),
      (''confidence_legitimate_feature'', TFloat confidence_legitimate_feature)]"

text \<open>Lines 87 to 130 of \<^verbatim>\<open>detect_phishing\<close>, reached when the cache gave nothing:
  check and predict, render the report, store it for 3600 seconds and return it.\<close>

definition classify_and_cache :: "world \<Rightarrow> nat \<Rightarrow> string \<Rightarrow> app \<Rightarrow> response \<times> app \<times> event list" where
  "classify_and_cache w now url s =
     (let ((result, confidence_phishing_feature, confidence_legitimate_feature), calls) =
            check_and_predict w url;
          ctx = report_ctx url result confidence_phishing_feature confidence_legitimate_feature;
          cached_render = render_template w ''index.html'' ctx
      in (make_response (Html cached_render),
          s\<lparr>cache := cache_set (cache s) now url cached_render 3600\<rparr>,
          [Cache_get url] @ calls @
          [Render_template ''index.html'' ctx, Cache_set url cached_render 3600]))"

text \<open>\<^verbatim>\<open>if cached_result:\<close> is Python's truth value: \<^verbatim>\<open>None\<close> and the empty string both
  count as nothing cached.\<close>

definition detect_phishing :: "world \<Rightarrow> nat \<Rightarrow> request \<Rightarrow> app \<Rightarrow> response \<times> app \<times> event list" where
  "detect_phishing w now req s =
     (if cookies req ''recaptcha_verified'' = Some ''true'' then
        if request_method req = ''POST'' then
          case form req ''url'' of
            None \<Rightarrow> (make_response (Abort 400), s, [])
          | Some url \<Rightarrow>
              (case cache_get (cache s) now url of
                 None \<Rightarrow> classify_and_cache w now url s
               | Some cached_result \<Rightarrow>
                   if cached_result \<noteq> [] then
                     (make_response (Html cached_result), s, [Cache_get url])
                   else classify_and_cache w now url s)
        else
          (make_response (Html (render_template w ''index.html'' [])), s,
           [Render_template ''index.html'' []])
      else
        (make_response (Redirect ''/verify_recaptcha''), s, []))"

definition submit_contact :: "world \<Rightarrow> nat \<Rightarrow> request \<Rightarrow> app \<Rightarrow> response \<times> app \<times> event list" where
  "submit_contact w now req s =
     (case form req ''name'' of
        None \<Rightarrow> (make_response (Abort 400), s, [])
      | Some name' \<Rightarrow>
          (case form req ''email'' of
             None \<Rightarrow> (make_response (Abort 400), s, [])
           | Some email' \<Rightarrow>
               (case form req ''message'' of
                  None \<Rightarrow> (make_response (Abort 400), s, [])
                | Some message' \<Rightarrow>
                    let new_contact = \<lparr>cid = next_id (contacts s), name = name',
                                       email = email', message = message'\<rparr>;
                        ctx = [(''success'', TBool True)]
                    in (make_response (Html (render_template w ''contact.html'' ctx)),
                        s\<lparr>contacts := contacts s @ [new_contact]\<rparr>,
                        [Db_add new_contact, Db_commit, Render_template ''contact.html'' ctx]))))"

definition view_contacts :: "world \<Rightarrow> nat \<Rightarrow> request \<Rightarrow> app \<Rightarrow> response \<times> app \<times> event list" where
  "view_contacts w now req s =
     (let contacts' = contacts s;
          ctx = [(''contacts'', TContacts contacts')]
      in (make_response (Html (render_template w ''view_contacts.html'' ctx)), s,
          [Query_all, Render_template ''view_contacts.html'' ctx]))"

definition delete_contact :: "world \<Rightarrow> nat \<Rightarrow> request \<Rightarrow> nat \<Rightarrow> app \<Rightarrow> response \<times> app \<times> event list" where
  "delete_contact w now req i s =
     (case query_get (contacts s) i of
        None \<Rightarrow> (make_response (Abort 404), s, [Query_get i])
      | Some contact' \<Rightarrow>
          (make_response (Redirect ''/view_contacts''),
           s\<lparr>contacts := db_delete (contacts s) contact'\<rparr>,
           [Query_get i, Db_delete contact', Db_commit,
            Flash ''Contact deleted successfully.'' ''success'']))"

section \<open>Concrete worlds and requests\<close>

text \<open>A world where every liveness check has the outcome \<open>g\<close>, the verification endpoint
  answers \<open>p\<close>, the classifier predicts \<open>l\<close> with probabilities \<open>pr\<close>, and a template
  renders to its own name.\<close>

definition demo_world :: "get_outcome \<Rightarrow> post_outcome \<Rightarrow> int \<Rightarrow> float64 \<times> float64 \<Rightarrow> world" where
  "demo_world g p l pr =
     \<lparr>requests_get = (\<lambda>url. g), requests_post = (\<lambda>url data. p), predict = (\<lambda>url. l),
      predict_proba = (\<lambda>url. pr), render_template = (\<lambda>t ctx. t),
      RECAPTCHA_SITE_KEY = None, RECAPTCHA_SECRET_KEY = None\<rparr>"

definition demo_request :: "string \<Rightarrow> (string \<times> string) list \<Rightarrow> (string \<times> string) list \<Rightarrow> request" where
  "demo_request m cs fs = \<lparr>request_method = m, cookies = map_of cs, form = map_of fs\<rparr>"

definition verified_post :: "string \<Rightarrow> request" where
  "verified_post u = demo_request ''POST'' [(''recaptcha_verified'', ''true'')] [(''url'', u)]"

definition empty_app :: app where
  "empty_app = \<lparr>cache = Map.empty, contacts = []\<rparr>"

definition contact_request :: "(string \<times> string) list \<Rightarrow> request" where
  "contact_request fs = demo_request ''POST'' [] fs"

definition two_contacts :: app where
  "two_contacts = \<lparr>cache = Map.empty, contacts =
     [\<lparr>cid = 1, name = ''Ann'', email = ''ann@a.test'', message = ''hello''\<rparr>,
      \<lparr>cid = 2, name = ''Bob'', email = ''bob@b.test'', message = ''hi''\<rparr>]\<rparr>"



section \<open>Rounding and comparison of floats\<close>



































section \<open>The gate and the form field\<close>

text \<open>C4: a request to \<^verbatim>\<open>/\<close> whose \<^verbatim>\<open>recaptcha_verified\<close> cookie is absent or is any
  string other than \<^verbatim>\<open>true\<close> is answered by a redirect to \<^verbatim>\<open>/verify_recaptcha\<close>, whatever
  its method; the state is unchanged and no call is made: no cache access, no liveness
  check, no classifier.\<close>

theorem unverified_redirect:
  assumes "cookies req ''recaptcha_verified'' \<noteq> Some ''true''"
  shows "detect_phishing w now req s = (make_response (Redirect ''/verify_recaptcha''), s, [])"
  using assms by (simp add: detect_phishing_def)

theorem unverified_redirect_witness:
  "cookies (demo_request ''POST'' [(''recaptcha_verified'', ''True'')] [(''url'', ''http://a.test'')])
     ''recaptcha_verified'' \<noteq> Some ''true'' \<and>
   detect_phishing (demo_world (Response 200) Post_raises 1 (Finite False 1 0, Finite False 0 0)) 0
     (demo_request ''POST'' [(''recaptcha_verified'', ''True'')] [(''url'', ''http://a.test'')]) empty_app =
   (make_response (Redirect ''/verify_recaptcha''), empty_app, [])"
  using unverified_redirect [of "demo_request ''POST'' [(''recaptcha_verified'', ''True'')] [(''url'', ''http://a.test'')]"
      "demo_world (Response 200) Post_raises 1 (Finite False 1 0, Finite False 0 0)" 0 empty_app]
  by (simp add: demo_request_def)

text \<open>C10: a POST to \<^verbatim>\<open>/\<close> from a verified client without the \<^verbatim>\<open>url\<close> form field is a
  400 bad request: the input form is not rendered, the state is unchanged and no call
  is made (no cache read or write, no liveness check, no classifier).\<close>

theorem missing_url_bad_request:
  assumes "cookies req ''recaptcha_verified'' = Some ''true''"
    and "request_method req = ''POST''"
    and "form req ''url'' = None"
  shows "detect_phishing w now req s = (make_response (Abort 400), s, [])"
  using assms by (simp add: detect_phishing_def)

theorem missing_url_bad_request_witness:
  "cookies (demo_request ''POST'' [(''recaptcha_verified'', ''true'')] []) ''recaptcha_verified'' = Some ''true'' \<and>
   request_method (demo_request ''POST'' [(''recaptcha_verified'', ''true'')] []) = ''POST'' \<and>
   form (demo_request ''POST'' [(''recaptcha_verified'', ''true'')] []) ''url'' = None \<and>
   detect_phishing (demo_world (Response 200) Post_raises 1 (Finite False 1 0, Finite False 0 0)) 0
     (demo_request ''POST'' [(''recaptcha_verified'', ''true'')] []) empty_app =
   (make_response (Abort 400), empty_app, [])"
  using missing_url_bad_request [of "demo_request ''POST'' [(''recaptcha_verified'', ''true'')] []"
      "demo_world (Response 200) Post_raises 1 (Finite False 1 0, Finite False 0 0)" 0 empty_app]
  by (simp add: demo_request_def)

section \<open>Classification\<close>


lemma detect_phishing_miss:
  assumes "cookies req ''recaptcha_verified'' = Some ''true''"
    and "request_method req = ''POST''"
    and "form req ''url'' = Some u"
    and "cache_get (cache s) now u = None"
  shows "detect_phishing w now req s = classify_and_cache w now u s"
  using assms by (simp add: detect_phishing_def)



















section \<open>The result cache\<close>

lemma cache_get_set_same:
  "now' < now + t \<Longrightarrow> cache_get (cache_set c now k v t) now' k = Some v"
  by (simp add: cache_get_def cache_set_def)

lemma cache_get_set_other:
  "k' \<noteq> k \<Longrightarrow> cache_get (cache_set c now k v t) now' k' = cache_get c now' k'"
  by (simp add: cache_get_def cache_set_def)

lemma classify_and_cache_shape:
  "\<exists>result cp cl calls.
     check_and_predict w u = ((result, cp, cl), calls) \<and>
     classify_and_cache w now u s =
       (make_response (Html (render_template w ''index.html'' (report_ctx u result cp cl))),
        s\<lparr>cache := cache_set (cache s) now u
                      (render_template w ''index.html'' (report_ctx u result cp cl)) 3600\<rparr>,
        [Cache_get u] @ calls @
        [Render_template ''index.html'' (report_ctx u result cp cl),
         Cache_set u (render_template w ''index.html'' (report_ctx u result cp cl)) 3600])"
  by (cases "check_and_predict w u") (auto simp: classify_and_cache_def Let_def)

lemma detect_phishing_hit:
  assumes "cookies req ''recaptcha_verified'' = Some ''true''"
    and "request_method req = ''POST''"
    and "form req ''url'' = Some u"
    and "cache_get (cache s) now u = Some page"
    and "page \<noteq> []"
  shows "detect_phishing w now req s = (make_response (Html page), s, [Cache_get u])"
  using assms by (simp add: detect_phishing_def)

text \<open>C3: on a verified POST of \<open>u\<close> with nothing cached for \<open>u\<close>, the rendered page is
  stored under the string \<open>u\<close> itself with a timeout of 3600 seconds, the write being
  the handler's last call; a second verified POST of the same string before the entry
  expires, in whatever world, returns the stored page with the single call
  \<^verbatim>\<open>cache.get\<close> (no liveness check, no classifier) and leaves the state as it is; and
  the entry of every other string is what it was before. The index template is taken
  to render a non-empty page, as the truth test on the cached value needs.\<close>

theorem cached_report_replayed:
  assumes first: "cookies req ''recaptcha_verified'' = Some ''true''"
      "request_method req = ''POST''" "form req ''url'' = Some u"
    and second: "cookies req' ''recaptcha_verified'' = Some ''true''"
      "request_method req' = ''POST''" "form req' ''url'' = Some u"
    and miss: "cache_get (cache s) now u = None"
    and nonempty: "\<forall>ctx. render_template w ''index.html'' ctx \<noteq> []"
    and fresh: "now' < now + 3600"
  shows "\<exists>page calls s'.
           detect_phishing w now req s = (make_response (Html page), s', calls @ [Cache_set u page 3600])
         \<and> s' = s\<lparr>cache := (cache s)(u \<mapsto> (page, now + 3600))\<rparr>
         \<and> detect_phishing w' now' req' s' = (make_response (Html page), s', [Cache_get u])
         \<and> (\<forall>u' t. u' \<noteq> u \<longrightarrow> cache_get (cache s') t u' = cache_get (cache s) t u')"
proof -
  obtain result cp cl calls where
    run: "classify_and_cache w now u s =
       (make_response (Html (render_template w ''index.html'' (report_ctx u result cp cl))),
        s\<lparr>cache := cache_set (cache s) now u
                      (render_template w ''index.html'' (report_ctx u result cp cl)) 3600\<rparr>,
        [Cache_get u] @ calls @
        [Render_template ''index.html'' (report_ctx u result cp cl),
         Cache_set u (render_template w ''index.html'' (report_ctx u result cp cl)) 3600])"
    using classify_and_cache_shape [of w u now s] by blast
  define page where "page = render_template w ''index.html'' (report_ctx u result cp cl)"
  define s' where "s' = s\<lparr>cache := cache_set (cache s) now u page 3600\<rparr>"
  have one: "detect_phishing w now req s =
      (make_response (Html page), s',
       ([Cache_get u] @ calls @ [Render_template ''index.html'' (report_ctx u result cp cl)])
         @ [Cache_set u page 3600])"
    using detect_phishing_miss [OF first miss, of w] run by (simp add: page_def s'_def)
  have stored: "s' = s\<lparr>cache := (cache s)(u \<mapsto> (page, now + 3600))\<rparr>"
    by (simp add: s'_def cache_set_def)
  have "page \<noteq> []"
    using nonempty by (simp add: page_def)
  moreover have "cache_get (cache s') now' u = Some page"
    using fresh by (simp add: s'_def cache_get_set_same)
  ultimately have two: "detect_phishing w' now' req' s' = (make_response (Html page), s', [Cache_get u])"
    using detect_phishing_hit [OF second] by blast
  have others: "\<forall>u' t. u' \<noteq> u \<longrightarrow> cache_get (cache s') t u' = cache_get (cache s) t u'"
    by (simp add: s'_def cache_get_set_other)
  from one stored two others show ?thesis by blast
qed

theorem cached_report_replayed_witness:
  "detect_phishing (demo_world (Response 404) Post_raises 1 (Finite False 1 0, Finite False 0 0)) 10
      (verified_post ''http://a.test/'') empty_app =
     (make_response (Html ''index.html''),
      empty_app\<lparr>cache := [''http://a.test/'' \<mapsto> (''index.html'', 3610)]\<rparr>,
      [Cache_get ''http://a.test/'', Requests_get ''http://a.test/'' 5,
       Render_template ''index.html''
         (report_ctx ''http://a.test/'' ''Phishing'' (Finite False 100 0) (Finite False 0 0)),
       Cache_set ''http://a.test/'' ''index.html'' 3600])
   \<and> detect_phishing (demo_world (Response 200) Post_raises 1 (Finite False 0 0, Finite False 1 0)) 3609
      (verified_post ''http://a.test/'')
      (empty_app\<lparr>cache := [''http://a.test/'' \<mapsto> (''index.html'', 3610)]\<rparr>) =
     (make_response (Html ''index.html''),
      empty_app\<lparr>cache := [''http://a.test/'' \<mapsto> (''index.html'', 3610)]\<rparr>,
      [Cache_get ''http://a.test/''])
   \<and> cache_get [''http://a.test/'' \<mapsto> (''index.html'', 3610)] 3609 ''http://a.test'' = None"
  using cached_report_replayed [of "verified_post ''http://a.test/''" "''http://a.test/''"
      "verified_post ''http://a.test/''" empty_app 10
      "demo_world (Response 404) Post_raises 1 (Finite False 1 0, Finite False 0 0)" 3609
      "demo_world (Response 200) Post_raises 1 (Finite False 0 0, Finite False 1 0)"]
  by (simp add: verified_post_def demo_request_def demo_world_def empty_app_def cache_get_def
      cache_set_def detect_phishing_def classify_and_cache_def check_and_predict_def Let_def
      make_response_def)

section \<open>The reCAPTCHA gate\<close>




section \<open>Contacts\<close>

text \<open>C5: a POST to \<^verbatim>\<open>/submit_contact\<close> that carries the three form fields \<^verbatim>\<open>name\<close>,
  \<^verbatim>\<open>email\<close> and \<^verbatim>\<open>message\<close> adds exactly one row, made of the three values, and renders
  the contact page with \<^verbatim>\<open>success\<close>; when one of the fields is absent the answer is
  a 400, nothing is added and the table is unchanged.\<close>

theorem contact_created_or_rejected:
  "(form req ''name'' = Some n \<and> form req ''email'' = Some e \<and> form req ''message'' = Some m \<longrightarrow>
      submit_contact w now req s =
        (make_response (Html (render_template w ''contact.html'' [(''success'', TBool True)])),
         s\<lparr>contacts := contacts s @ [\<lparr>cid = next_id (contacts s), name = n, email = e, message = m\<rparr>]\<rparr>,
         [Db_add \<lparr>cid = next_id (contacts s), name = n, email = e, message = m\<rparr>, Db_commit,
          Render_template ''contact.html'' [(''success'', TBool True)]])
      \<and> length (contacts (fst (snd (submit_contact w now req s)))) = Suc (length (contacts s)))
   \<and> (form req ''name'' = None \<or> form req ''email'' = None \<or> form req ''message'' = None \<longrightarrow>
      submit_contact w now req s = (make_response (Abort 400), s, []))"
  by (auto simp: submit_contact_def Let_def split: option.splits)

theorem contact_created_or_rejected_witness:
  "submit_contact (demo_world Raises_RequestException Post_raises 1 (Finite False 1 0, Finite False 0 0)) 0
     (contact_request [(''name'', ''Cy''), (''email'', ''cy@c.test''), (''message'', ''hey'')]) two_contacts =
     (make_response (Html ''contact.html''),
      two_contacts\<lparr>contacts := contacts two_contacts @
         [\<lparr>cid = 3, name = ''Cy'', email = ''cy@c.test'', message = ''hey''\<rparr>]\<rparr>,
      [Db_add \<lparr>cid = 3, name = ''Cy'', email = ''cy@c.test'', message = ''hey''\<rparr>, Db_commit,
       Render_template ''contact.html'' [(''success'', TBool True)]])
   \<and> submit_contact (demo_world Raises_RequestException Post_raises 1 (Finite False 1 0, Finite False 0 0)) 0
     (contact_request [(''name'', ''Cy''), (''message'', ''hey'')]) two_contacts =
     (make_response (Abort 400), two_contacts, [])"
  using contact_created_or_rejected [of
      "contact_request [(''name'', ''Cy''), (''email'', ''cy@c.test''), (''message'', ''hey'')]"
      "''Cy''" "''cy@c.test''" "''hey''"
      "demo_world Raises_RequestException Post_raises 1 (Finite False 1 0, Finite False 0 0)" 0 two_contacts]
    contact_created_or_rejected [of
      "contact_request [(''name'', ''Cy''), (''message'', ''hey'')]"
      "''Cy''" "''cy@c.test''" "''hey''"
      "demo_world Raises_RequestException Post_raises 1 (Finite False 1 0, Finite False 0 0)" 0 two_contacts]
  by (simp add: contact_request_def demo_request_def demo_world_def two_contacts_def next_id_def)

lemma query_get_None: "query_get rows i = None \<longleftrightarrow> i \<notin> cid ` set rows"
  by (auto simp: query_get_def find_None_iff)

lemma query_get_Some:
  "query_get rows i = Some c \<Longrightarrow> c \<in> set rows \<and> cid c = i"
  by (auto simp: query_get_def find_Some_iff)

lemma distinct_ids_inj:
  assumes "distinct (map cid rows)" and "r \<in> set rows" and "c \<in> set rows" and "cid r = cid c"
  shows "r = c"
  using assms by (auto simp: distinct_map dest: inj_onD)

lemma distinct_ids_filter:
  assumes "distinct (map cid rows)" and "c \<in> set rows"
  shows "filter (\<lambda>r. cid r \<noteq> cid c) rows = filter (\<lambda>r. r \<noteq> c) rows"
  using distinct_ids_inj [OF assms(1) _ assms(2)] by (intro filter_cong) auto

lemma distinct_ids_length:
  assumes "distinct (map cid rows)" and "c \<in> set rows"
  shows "Suc (length (filter (\<lambda>r. cid r \<noteq> cid c) rows)) = length rows"
  using assms
proof (induction rows)
  case Nil
  then show ?case by simp
next
  case (Cons r rows)
  show ?case
  proof (cases "r = c")
    case True
    with Cons.prems have "\<forall>x\<in>set rows. cid x \<noteq> cid c" by (auto simp: image_iff)
    then have "filter (\<lambda>r. cid r \<noteq> cid c) rows = rows" by (simp add: filter_id_conv)
    with True show ?thesis by simp
  next
    case False
    with Cons.prems have "c \<in> set rows" and "cid r \<noteq> cid c" and "distinct (map cid rows)"
      by (auto simp: image_iff)
    with Cons.IH show ?thesis by simp
  qed
qed

text \<open>C8: a POST to \<^verbatim>\<open>/delete_contact/i\<close> for an id that no row carries is a 404 and
  leaves the table unchanged; for an id that a row carries (ids being distinct, as a
  primary key is) it removes exactly that row, flashes the confirmation and redirects to
  the listing, and the listing then shows the table without that row and with all the
  others, in their order.\<close>

theorem delete_contact_by_id:
  "(i \<notin> cid ` set (contacts s) \<longrightarrow>
      delete_contact w now req i s = (make_response (Abort 404), s, [Query_get i]))
   \<and> (i \<in> cid ` set (contacts s) \<and> distinct (map cid (contacts s)) \<longrightarrow>
      (\<exists>c s'. c \<in> set (contacts s) \<and> cid c = i
         \<and> delete_contact w now req i s =
             (make_response (Redirect ''/view_contacts''), s',
              [Query_get i, Db_delete c, Db_commit, Flash ''Contact deleted successfully.'' ''success''])
         \<and> contacts s' = filter (\<lambda>r. r \<noteq> c) (contacts s)
         \<and> Suc (length (contacts s')) = length (contacts s)
         \<and> cache s' = cache s
         \<and> view_contacts w now' req' s' =
             (make_response (Html (render_template w ''view_contacts.html''
                [(''contacts'', TContacts (filter (\<lambda>r. r \<noteq> c) (contacts s)))])), s',
              [Query_all, Render_template ''view_contacts.html''
                [(''contacts'', TContacts (filter (\<lambda>r. r \<noteq> c) (contacts s)))]])))"
proof (intro conjI impI)
  assume "i \<notin> cid ` set (contacts s)"
  then have "query_get (contacts s) i = None" by (simp add: query_get_None)
  then show "delete_contact w now req i s = (make_response (Abort 404), s, [Query_get i])"
    by (simp add: delete_contact_def)
next
  assume a: "i \<in> cid ` set (contacts s) \<and> distinct (map cid (contacts s))"
  then obtain c where q: "query_get (contacts s) i = Some c"
    using query_get_None [of "contacts s" i] by (cases "query_get (contacts s) i") auto
  then have c: "c \<in> set (contacts s)" "cid c = i" using query_get_Some by blast+
  define s' where "s' = s\<lparr>contacts := db_delete (contacts s) c\<rparr>"
  have rows: "contacts s' = filter (\<lambda>r. r \<noteq> c) (contacts s)"
    using a c distinct_ids_filter [of "contacts s" c] by (simp add: s'_def db_delete_def)
  have len: "Suc (length (contacts s')) = length (contacts s)"
    using a c distinct_ids_length [of "contacts s" c] by (simp add: s'_def db_delete_def)
  have del: "delete_contact w now req i s =
             (make_response (Redirect ''/view_contacts''), s',
              [Query_get i, Db_delete c, Db_commit, Flash ''Contact deleted successfully.'' ''success''])"
    using q by (simp add: delete_contact_def s'_def)
  have view: "view_contacts w now' req' s' =
             (make_response (Html (render_template w ''view_contacts.html''
                [(''contacts'', TContacts (filter (\<lambda>r. r \<noteq> c) (contacts s)))])), s',
              [Query_all, Render_template ''view_contacts.html''
                [(''contacts'', TContacts (filter (\<lambda>r. r \<noteq> c) (contacts s)))]])"
    using rows by (simp add: view_contacts_def Let_def)
  have "cache s' = cache s" by (simp add: s'_def)
  with c del rows len view
  show "\<exists>c s'. c \<in> set (contacts s) \<and> cid c = i
         \<and> delete_contact w now req i s =
             (make_response (Redirect ''/view_contacts''), s',
              [Query_get i, Db_delete c, Db_commit, Flash ''Contact deleted successfully.'' ''success''])
         \<and> contacts s' = filter (\<lambda>r. r \<noteq> c) (contacts s)
         \<and> Suc (length (contacts s')) = length (contacts s)
         \<and> cache s' = cache s
         \<and> view_contacts w now' req' s' =
             (make_response (Html (render_template w ''view_contacts.html''
                [(''contacts'', TContacts (filter (\<lambda>r. r \<noteq> c) (contacts s)))])), s',
              [Query_all, Render_template ''view_contacts.html''
                [(''contacts'', TContacts (filter (\<lambda>r. r \<noteq> c) (contacts s)))]])"
    by blast
qed

theorem delete_contact_by_id_witness:
  "delete_contact (demo_world Raises_RequestException Post_raises 1 (Finite False 1 0, Finite False 0 0)) 0
     (contact_request []) 5 two_contacts = (make_response (Abort 404), two_contacts, [Query_get 5])
   \<and> delete_contact (demo_world Raises_RequestException Post_raises 1 (Finite False 1 0, Finite False 0 0)) 0
     (contact_request []) 1 two_contacts =
     (make_response (Redirect ''/view_contacts''),
      two_contacts\<lparr>contacts := [\<lparr>cid = 2, name = ''Bob'', email = ''bob@b.test'', message = ''hi''\<rparr>]\<rparr>,
      [Query_get 1, Db_delete \<lparr>cid = 1, name = ''Ann'', email = ''ann@a.test'', message = ''hello''\<rparr>,
       Db_commit, Flash ''Contact deleted successfully.'' ''success''])"
  using delete_contact_by_id [of 5 two_contacts
      "demo_world Raises_RequestException Post_raises 1 (Finite False 1 0, Finite False 0 0)" 0
      "contact_request []" 0 "contact_request []"]
    delete_contact_by_id [of 1 two_contacts
      "demo_world Raises_RequestException Post_raises 1 (Finite False 1 0, Finite False 0 0)" 0
      "contact_request []" 0 "contact_request []"]
  by (simp add: two_contacts_def delete_contact_def query_get_def db_delete_def)

lemma next_id_fresh: "r \<in> set rows \<Longrightarrow> cid r < next_id rows"
  by (induction rows) (auto simp: next_id_def)

lemma submit_contact_keeps_ids_distinct:
  assumes "distinct (map cid (contacts s))"
  shows "distinct (map cid (contacts (fst (snd (submit_contact w now req s)))))"
proof -
  have "next_id (contacts s) \<notin> cid ` set (contacts s)"
    using next_id_fresh [of _ "contacts s"] by force
  with assms show ?thesis
    by (auto simp: submit_contact_def Let_def split: option.splits)
qed

lemma delete_contact_keeps_ids_distinct:
  assumes "distinct (map cid (contacts s))"
  shows "distinct (map cid (contacts (fst (snd (delete_contact w now req i s)))))"
  using assms
  by (auto simp: delete_contact_def db_delete_def distinct_map_filter split: option.splits)

end
